theory Spec2Isabelle
  imports Complex_Main "HOL-Library.AList"
begin

section \<open>The shape example of solid.js\<close>

text \<open>
  The file \<^verbatim>\<open>src/principles/solid.js\<close> builds its shapes, calculators and outputter out of
  object literals, \<^verbatim>\<open>Object.assign\<close>, \<^verbatim>\<open>Object.create\<close> and arrow functions that capture
  local variables. The embedding keeps that structure: an object is its list of own
  properties together with its prototype, a property read walks the prototype chain, and
  every function expression of the source is one constructor that carries the variables the
  function captures.

  The script has no \<^verbatim>\<open>'use strict'\<close> and is no module, so it runs as a sloppy-mode script.
\<close>

subsection \<open>Values\<close>

text \<open>
  A string that the source builds from the text of a number is kept as its pieces: the
  conversion of a number to text is the engine's, and stays uninterpreted.
\<close>

datatype 'n piece =
    Chars string
    \<comment> \<open>characters written in the source\<close>
  | ToString 'n
    \<comment> \<open>the text of a number in a template literal\<close>
  | JSON_stringify 'n
    \<comment> \<open>\<^verbatim>\<open>JSON.stringify\<close> of a number\<close>

datatype 'n jsval =
    Undefined
  | Null
  | Num 'n
  | Str string
  | StrOf "'n piece list"
    \<comment> \<open>the string that is the concatenation of the pieces\<close>
  | Arr "'n jsval list"
  | ObjectPrototype
    \<comment> \<open>the built-in \<^verbatim>\<open>Object.prototype\<close>, the prototype of every object literal\<close>
  | Obj "(string \<times> 'n jsval) list" "'n jsval"
    \<comment> \<open>own enumerable properties in insertion order, and the prototype\<close>
  | Square_area
    \<comment> \<open>line 24: \<^verbatim>\<open>args => Math.pow(args.length, 2)\<close>\<close>
  | Circle_area
    \<comment> \<open>line 36: \<^verbatim>\<open>args => Math.PI * Math.pow(args.radius, 2)\<close>\<close>
  | Cubo_area
    \<comment> \<open>line 49: \<^verbatim>\<open>args => Math.pow(args.length, 2)\<close>\<close>
  | Cubo_volume
    \<comment> \<open>line 50: \<^verbatim>\<open>args => Math.pow(args.length, 3)\<close>\<close>
  | ShapeInterface_area "'n jsval"
    \<comment> \<open>line 7: \<^verbatim>\<open>() => state.area(state)\<close>, capturing \<^verbatim>\<open>state\<close>\<close>
  | SolidShapeInterface_volume "'n jsval"
    \<comment> \<open>line 12: \<^verbatim>\<open>() => state.volume(state)\<close>, capturing \<^verbatim>\<open>state\<close>\<close>
  | ManageShapeInterface_calculate "'n jsval"
    \<comment> \<open>line 17: \<^verbatim>\<open>() => fn()\<close>, capturing \<^verbatim>\<open>fn\<close>\<close>
  | Square_fn "'n jsval"
    \<comment> \<open>line 27: \<^verbatim>\<open>() => basics.area()\<close>, capturing \<^verbatim>\<open>basics\<close>\<close>
  | Circle_fn "'n jsval"
    \<comment> \<open>line 40: \<^verbatim>\<open>() => basics.area()\<close>, capturing \<^verbatim>\<open>basics\<close>\<close>
  | Cubo_fn "'n jsval" "'n jsval"
    \<comment> \<open>line 55: \<^verbatim>\<open>() => basics.area() + complex.volume()\<close>, capturing \<^verbatim>\<open>basics\<close>
        and \<^verbatim>\<open>complex\<close>\<close>
  | AreaCalculator_sum
    \<comment> \<open>line 64: the method \<^verbatim>\<open>sum()\<close>\<close>
  | Oputter_JSON
    \<comment> \<open>line 87: the method \<^verbatim>\<open>JSON()\<close>\<close>
  | Oputter_HAML
    \<comment> \<open>line 90: the method \<^verbatim>\<open>HAML()\<close>\<close>
  | Oputter_HTML
    \<comment> \<open>line 93: the method \<^verbatim>\<open>HTML()\<close>\<close>
  | Oputter_JADE
    \<comment> \<open>line 100: the method \<^verbatim>\<open>JADE()\<close>\<close>

datatype error =
    TypeError
    \<comment> \<open>the engine throws a \<^verbatim>\<open>TypeError\<close>: a property of \<^verbatim>\<open>undefined\<close> or \<^verbatim>\<open>null\<close> is read, a
        value that is no function is called, a value that is not iterable is iterated\<close>
  | Unmodelled
    \<comment> \<open>no error of the engine: it would go on where this development stops, by converting an
        operand that is no number (\<^verbatim>\<open>ToNumber\<close>, \<^verbatim>\<open>ToPrimitive\<close>, \<^verbatim>\<open>ToString\<close>) or by
        reading the \<^verbatim>\<open>length\<close> of a string, an array or a function\<close>

fun is_function :: "'n jsval \<Rightarrow> bool" where
  "is_function Undefined = False"
| "is_function Null = False"
| "is_function (Num _) = False"
| "is_function (Str _) = False"
| "is_function (StrOf _) = False"
| "is_function (Arr _) = False"
| "is_function ObjectPrototype = False"
| "is_function (Obj _ _) = False"
| "is_function _ = True"

subsection \<open>Property reads\<close>

text \<open>
  \<^verbatim>\<open>o.k\<close> for the property names the source reads: \<^verbatim>\<open>area\<close>, \<^verbatim>\<open>volume\<close>, \<^verbatim>\<open>calculate\<close>,
  \<^verbatim>\<open>length\<close>, \<^verbatim>\<open>radius\<close>, \<^verbatim>\<open>shapes\<close>, \<^verbatim>\<open>calculator\<close>, \<^verbatim>\<open>sum\<close>. None of them is a property
  of \<^verbatim>\<open>Object.prototype\<close> or of a number; \<^verbatim>\<open>length\<close> is one of strings, arrays and functions,
  where its value is a count that the development does not compute. The walk up the
  prototype chain ends at \<^verbatim>\<open>Object.prototype\<close> or at a \<^verbatim>\<open>null\<close> prototype.
\<close>

fun get :: "'n jsval \<Rightarrow> string \<Rightarrow> error + 'n jsval" where
  "get Undefined k = Inl TypeError"
| "get Null k = Inl TypeError"
| "get (Obj props proto) k =
     (case map_of props k of
        Some v \<Rightarrow> Inr v
      | None \<Rightarrow> (if proto = Null then Inr Undefined else get proto k))"
| "get ObjectPrototype k = Inr Undefined"
| "get (Num x) k = Inr Undefined"
| "get v k = (if k = ''length'' then Inl Unmodelled else Inr Undefined)"

text \<open>The function that \<^verbatim>\<open>o.k(...)\<close> calls: reading it, then checking that it is callable.\<close>

definition get_method :: "'n jsval \<Rightarrow> string \<Rightarrow> error + 'n jsval" where
  "get_method obj k =
     (case get obj k of
        Inl e \<Rightarrow> Inl e
      | Inr f \<Rightarrow> if is_function f then Inr f else Inl TypeError)"

subsection \<open>Object.assign, Object.create, Object.getPrototypeOf\<close>

fun own :: "'n jsval \<Rightarrow> (string \<times> 'n jsval) list" where
  "own (Obj props proto) = props"
| "own _ = []"

fun set_own :: "string \<Rightarrow> 'n jsval \<Rightarrow> 'n jsval \<Rightarrow> 'n jsval" where
  "set_own k v (Obj props proto) = Obj (AList.update k v props) proto"
| "set_own k v target = target"

text \<open>
  \<^verbatim>\<open>Object.assign(target, ...sources)\<close>: the own enumerable properties of each source, in
  order, are written to the target; a later source overwrites an earlier one. The source
  passes object literals and objects only.
\<close>

definition Object_assign :: "'n jsval \<Rightarrow> 'n jsval list \<Rightarrow> 'n jsval" where
  "Object_assign target sources =
     foldl (\<lambda>t s. foldl (\<lambda>t' (k, v). set_own k v t') t (own s)) target sources"

definition Object_create :: "'n jsval \<Rightarrow> 'n jsval" where
  "Object_create proto = Obj [] proto"

fun Object_getPrototypeOf :: "'n jsval \<Rightarrow> 'n jsval" where
  "Object_getPrototypeOf (Obj props proto) = proto"
| "Object_getPrototypeOf v = Null"

abbreviation literal :: "(string \<times> 'n jsval) list \<Rightarrow> 'n jsval" where
  "literal props \<equiv> Obj props ObjectPrototype"

subsection \<open>The interfaces and the shapes\<close>

definition shapeInterface :: "'n jsval \<Rightarrow> 'n jsval" where
  "shapeInterface state =
     literal [(''type'', Str ''shapeInterface''), (''area'', ShapeInterface_area state)]"

definition solidShapeInterface :: "'n jsval \<Rightarrow> 'n jsval" where
  "solidShapeInterface state =
     literal [(''type'', Str ''solidShapeInterface''),
              (''volume'', SolidShapeInterface_volume state)]"

definition manageShapeInterface :: "'n jsval \<Rightarrow> 'n jsval" where
  "manageShapeInterface fn =
     literal [(''type'', Str ''manageShapeInterface''),
              (''calculate'', ManageShapeInterface_calculate fn)]"

definition square_proto :: "'n jsval \<Rightarrow> 'n jsval" where
  "square_proto len =
     literal [(''length'', len), (''type'', Str ''Square''), (''area'', Square_area)]"

definition square :: "'n jsval \<Rightarrow> 'n jsval" where
  "square len =
     (let proto = square_proto len;
          basics = shapeInterface proto;
          abstraccion = manageShapeInterface (Square_fn basics);
          composite = Object_assign (literal []) [basics, abstraccion]
      in Object_assign (Object_create composite) [literal [(''length'', len)]])"

definition circle_proto :: "'n jsval \<Rightarrow> 'n jsval" where
  "circle_proto radius =
     literal [(''radius'', radius), (''type'', Str ''Circle''), (''area'', Circle_area)]"

definition circle :: "'n jsval \<Rightarrow> 'n jsval" where
  "circle radius =
     (let proto = circle_proto radius;
          basics = shapeInterface proto;
          abstraccion = manageShapeInterface (Circle_fn basics);
          composite = Object_assign (literal []) [basics, abstraccion]
      in Object_assign (Object_create composite) [literal [(''radius'', radius)]])"

definition cubo_proto :: "'n jsval \<Rightarrow> 'n jsval" where
  "cubo_proto len =
     literal [(''length'', len), (''type'', Str ''Cubo''), (''area'', Cubo_area),
              (''volume'', Cubo_volume)]"

definition cubo :: "'n jsval \<Rightarrow> 'n jsval" where
  "cubo len =
     (let proto = cubo_proto len;
          basics = shapeInterface proto;
          complex = solidShapeInterface proto;
          abstraccion = manageShapeInterface (Cubo_fn basics complex);
          composite = Object_assign (literal []) [basics, abstraccion]
      in Object_assign (Object_create composite) [literal [(''length'', len)]])"

subsection \<open>The calculators and the outputter\<close>

definition areaCalculator_proto :: "'n jsval" where
  "areaCalculator_proto =
     literal [(''type'', Str ''areaCalculator''), (''sum'', AreaCalculator_sum)]"

definition areaCalculator :: "'n jsval \<Rightarrow> 'n jsval" where
  "areaCalculator s =
     (let proto = areaCalculator_proto
      in Object_assign (Object_create proto) [literal [(''shapes'', s)]])"

definition volumeCalculator :: "'n jsval \<Rightarrow> 'n jsval" where
  "volumeCalculator s =
     (let proto = literal [(''type'', Str ''volumeCalculator'')];
          areaCalProto = Object_getPrototypeOf (areaCalculator Undefined);
          inherit = Object_assign (literal []) [areaCalProto, proto]
      in Object_assign (Object_create inherit) [literal [(''shapes'', s)]])"

definition sumCalculatorOputter :: "'n jsval \<Rightarrow> 'n jsval" where
  "sumCalculatorOputter a =
     (let proto = literal [(''JSON'', Oputter_JSON), (''HAML'', Oputter_HAML),
                           (''HTML'', Oputter_HTML), (''JADE'', Oputter_JADE)]
      in Object_assign (Object_create proto) [literal [(''calculator'', a)]])"

subsection \<open>Numbers\<close>

text \<open>
  The numbers of the source are the engine's: IEEE 754 binary64 values, added, multiplied
  and printed by the engine. The calls below take the engine's arithmetic as a parameter, so
  that what is proved for every arithmetic holds for the engine's, and the formulas of the
  specification, which are about real numbers, are the instance \<open>exact\<close>.
\<close>

record 'n engine =
  lit0 :: 'n
    \<comment> \<open>the literal \<^verbatim>\<open>0\<close>\<close>
  add :: "'n \<Rightarrow> 'n \<Rightarrow> 'n"
    \<comment> \<open>\<^verbatim>\<open>+\<close> on two numbers\<close>
  mul :: "'n \<Rightarrow> 'n \<Rightarrow> 'n"
    \<comment> \<open>\<^verbatim>\<open>*\<close> on two numbers\<close>
  Math_pow :: "'n \<Rightarrow> nat \<Rightarrow> 'n"
    \<comment> \<open>\<^verbatim>\<open>Math.pow\<close> with the literal exponents \<^verbatim>\<open>2\<close> and \<^verbatim>\<open>3\<close> of the source\<close>
  Math_PI :: 'n

definition js_pow :: "'n engine \<Rightarrow> 'n jsval \<Rightarrow> nat \<Rightarrow> error + 'n jsval" where
  "js_pow E v n = (case v of Num x \<Rightarrow> Inr (Num (Math_pow E x n)) | _ \<Rightarrow> Inl Unmodelled)"

definition js_add :: "'n engine \<Rightarrow> 'n jsval \<Rightarrow> 'n jsval \<Rightarrow> error + 'n jsval" where
  "js_add E a b =
     (case a of
        Num x \<Rightarrow> (case b of Num y \<Rightarrow> Inr (Num (add E x y)) | _ \<Rightarrow> Inl Unmodelled)
      | _ \<Rightarrow> Inl Unmodelled)"

definition js_mul :: "'n engine \<Rightarrow> 'n jsval \<Rightarrow> 'n jsval \<Rightarrow> error + 'n jsval" where
  "js_mul E a b =
     (case a of
        Num x \<Rightarrow> (case b of Num y \<Rightarrow> Inr (Num (mul E x y)) | _ \<Rightarrow> Inl Unmodelled)
      | _ \<Rightarrow> Inl Unmodelled)"

definition js_JSON_stringify :: "'n jsval \<Rightarrow> error + 'n jsval" where
  "js_JSON_stringify v =
     (case v of Num x \<Rightarrow> Inr (StrOf [JSON_stringify x]) | _ \<Rightarrow> Inl Unmodelled)"

text \<open>The template literal of \<^verbatim>\<open>HTML()\<close>, lines 94 to 98, with the value of its hole.\<close>

definition HTML_template :: "'n jsval \<Rightarrow> error + 'n jsval" where
  "HTML_template v =
     (case v of
        Num x \<Rightarrow> Inr (StrOf
          [Chars ([CHR 0x0A] @ ''          <h1>'' @
                  [CHR 0x0A] @ ''            Sum of the areas of provided shapes:'' @
                  [CHR 0x0A] @ ''            ''),
           ToString x,
           Chars ([CHR 0x0A] @ ''          </h1>'')])
      | _ \<Rightarrow> Inl Unmodelled)"

text \<open>
  \<^verbatim>\<open>area.reduce((v, c) => (c += v), 0)\<close>: from the left, the accumulator \<^verbatim>\<open>v\<close> becomes
  \<^verbatim>\<open>c + v\<close> for each element \<^verbatim>\<open>c\<close>.
\<close>

fun reduce :: "'n engine \<Rightarrow> 'n jsval list \<Rightarrow> 'n jsval \<Rightarrow> error + 'n jsval" where
  "reduce E [] v = Inr v"
| "reduce E (c # cs) v =
     (case js_add E c v of Inl e \<Rightarrow> Inl e | Inr v' \<Rightarrow> reduce E cs v')"

subsection \<open>Calls\<close>

text \<open>
  The loop of \<^verbatim>\<open>sum()\<close> is \<^verbatim>\<open>for (shape of this.shapes)\<close> with no declaration of \<^verbatim>\<open>shape\<close>:
  in a sloppy-mode script each iteration assigns the global variable \<^verbatim>\<open>shape\<close>. That
  variable is the one location the source writes after an object is built, and the state
  every call takes and returns.
\<close>

record 'n globals =
  shape :: "'n jsval option"

text \<open>
  \<open>call E f this args g\<close> is the call of the function \<open>f\<close> with the receiver \<open>this\<close> and the
  argument \<open>args\<close> (\<open>Undefined\<close> when the call passes none) in the state \<open>g\<close>;
  \<open>for_of E xs area g\<close> is the loop of lines 66 to 68 over the elements \<open>xs\<close> that are left,
  with the array \<open>area\<close> filled so far.

  An arrow function takes no receiver. A method called without one (\<^verbatim>\<open>fn()\<close> at line 17)
  gets \<open>Undefined\<close> here and the global object from the engine; the global object has no
  \<^verbatim>\<open>shapes\<close> and no \<^verbatim>\<open>calculator\<close>, so that the method fails with the same \<^verbatim>\<open>TypeError\<close> in
  both.

  Iterating a string gives its characters, none of which has a \<^verbatim>\<open>calculate\<close>: the loop
  over a string ends at the first character, if there is one.
\<close>

function call :: "'n engine \<Rightarrow> 'n jsval \<Rightarrow> 'n jsval \<Rightarrow> 'n jsval \<Rightarrow> 'n globals
    \<Rightarrow> (error + 'n jsval) \<times> 'n globals"
  and for_of :: "'n engine \<Rightarrow> 'n jsval list \<Rightarrow> 'n jsval list \<Rightarrow> 'n globals
    \<Rightarrow> (error + 'n jsval list) \<times> 'n globals"
where
  "call E Square_area this args g =
     (case get args ''length'' of
        Inl e \<Rightarrow> (Inl e, g)
      | Inr l \<Rightarrow> (js_pow E l 2, g))"
| "call E Circle_area this args g =
     (case get args ''radius'' of
        Inl e \<Rightarrow> (Inl e, g)
      | Inr r \<Rightarrow>
          (case js_pow E r 2 of
             Inl e \<Rightarrow> (Inl e, g)
           | Inr p \<Rightarrow> (js_mul E (Num (Math_PI E)) p, g)))"
| "call E Cubo_area this args g =
     (case get args ''length'' of
        Inl e \<Rightarrow> (Inl e, g)
      | Inr l \<Rightarrow> (js_pow E l 2, g))"
| "call E Cubo_volume this args g =
     (case get args ''length'' of
        Inl e \<Rightarrow> (Inl e, g)
      | Inr l \<Rightarrow> (js_pow E l 3, g))"
| "call E (ShapeInterface_area state) this args g =
     (case get_method state ''area'' of
        Inl e \<Rightarrow> (Inl e, g)
      | Inr f \<Rightarrow> call E f state state g)"
| "call E (SolidShapeInterface_volume state) this args g =
     (case get_method state ''volume'' of
        Inl e \<Rightarrow> (Inl e, g)
      | Inr f \<Rightarrow> call E f state state g)"
| "call E (ManageShapeInterface_calculate fn) this args g =
     (if is_function fn then call E fn Undefined Undefined g else (Inl TypeError, g))"
| "call E (Square_fn basics) this args g =
     (case get_method basics ''area'' of
        Inl e \<Rightarrow> (Inl e, g)
      | Inr f \<Rightarrow> call E f basics Undefined g)"
| "call E (Circle_fn basics) this args g =
     (case get_method basics ''area'' of
        Inl e \<Rightarrow> (Inl e, g)
      | Inr f \<Rightarrow> call E f basics Undefined g)"
| "call E (Cubo_fn basics complex) this args g =
     (case get_method basics ''area'' of
        Inl e \<Rightarrow> (Inl e, g)
      | Inr f \<Rightarrow>
          (case call E f basics Undefined g of
             (Inl e, g1) \<Rightarrow> (Inl e, g1)
           | (Inr a, g1) \<Rightarrow>
               (case get_method complex ''volume'' of
                  Inl e \<Rightarrow> (Inl e, g1)
                | Inr f' \<Rightarrow>
                    (case call E f' complex Undefined g1 of
                       (Inl e, g2) \<Rightarrow> (Inl e, g2)
                     | (Inr v, g2) \<Rightarrow> (js_add E a v, g2)))))"
| "call E AreaCalculator_sum this args g =
     (case get this ''shapes'' of
        Inl e \<Rightarrow> (Inl e, g)
      | Inr (Arr xs) \<Rightarrow>
          (case for_of E xs [] g of
             (Inl e, g1) \<Rightarrow> (Inl e, g1)
           | (Inr area, g1) \<Rightarrow> (reduce E area (Num (lit0 E)), g1))
      | Inr (Str []) \<Rightarrow> (reduce E [] (Num (lit0 E)), g)
      | Inr (Str (c # cs)) \<Rightarrow> (Inl TypeError, g\<lparr>shape := Some (Str [c])\<rparr>)
      | Inr (StrOf ps) \<Rightarrow> (Inl Unmodelled, g)
      | Inr _ \<Rightarrow> (Inl TypeError, g))"
| "call E Oputter_JSON this args g =
     (case get this ''calculator'' of
        Inl e \<Rightarrow> (Inl e, g)
      | Inr c \<Rightarrow>
          (case get_method c ''sum'' of
             Inl e \<Rightarrow> (Inl e, g)
           | Inr f \<Rightarrow>
               (case call E f c Undefined g of
                  (Inl e, g1) \<Rightarrow> (Inl e, g1)
                | (Inr v, g1) \<Rightarrow> (js_JSON_stringify v, g1))))"
| "call E Oputter_HAML this args g = (Inr (Str ''HAML format output''), g)"
| "call E Oputter_HTML this args g =
     (case get this ''calculator'' of
        Inl e \<Rightarrow> (Inl e, g)
      | Inr c \<Rightarrow>
          (case get_method c ''sum'' of
             Inl e \<Rightarrow> (Inl e, g)
           | Inr f \<Rightarrow>
               (case call E f c Undefined g of
                  (Inl e, g1) \<Rightarrow> (Inl e, g1)
                | (Inr v, g1) \<Rightarrow> (HTML_template v, g1))))"
| "call E Oputter_JADE this args g = (Inr (Str ''JADE format output''), g)"
| "call E Undefined this args g = (Inl TypeError, g)"
| "call E Null this args g = (Inl TypeError, g)"
| "call E (Num x) this args g = (Inl TypeError, g)"
| "call E (Str s) this args g = (Inl TypeError, g)"
| "call E (StrOf ps) this args g = (Inl TypeError, g)"
| "call E (Arr xs) this args g = (Inl TypeError, g)"
| "call E ObjectPrototype this args g = (Inl TypeError, g)"
| "call E (Obj props proto) this args g = (Inl TypeError, g)"
| "for_of E [] area g = (Inr area, g)"
| "for_of E (x # xs) area g =
     (let g1 = g\<lparr>shape := Some x\<rparr>
      in case get_method x ''calculate'' of
           Inl e \<Rightarrow> (Inl e, g1)
         | Inr f \<Rightarrow>
             (case call E f x Undefined g1 of
                (Inl e, g2) \<Rightarrow> (Inl e, g2)
              | (Inr c, g2) \<Rightarrow> for_of E xs (area @ [c]) g2))"
  by pat_completeness auto
termination
proof -
  have size_pos: "0 < size v" for v :: "'n jsval"
    by (cases v) auto
  have map_of_size: "size v < Suc (size_list (size_prod (\<lambda>_. 0) size) props)"
    if "map_of props k = Some v" for props :: "(string \<times> 'n jsval) list" and k v
    using that by (induction props) (auto split: if_splits)
  have get_size: "size v < size obj"
    if "get obj k = Inr v" and "v \<noteq> Undefined" for obj k and v :: "'n jsval"
    using that
  proof (induction obj k rule: get.induct)
    case (3 props proto k)
    show ?case
    proof (cases "map_of props k")
      case None
      with 3 show ?thesis by (simp split: if_splits)
    next
      case (Some w)
      with 3 map_of_size [OF Some] show ?thesis by simp
    qed
  qed (auto split: if_splits)
  have get_method_size: "size f < size obj"
    if "get_method obj k = Inr f" for obj k and f :: "'n jsval"
    using that by (auto simp: get_method_def split: sum.splits if_splits dest: get_size)
  show ?thesis
  proof (relation "measure (\<lambda>x. case x of
            Inl (E, f, this, args, g) \<Rightarrow> max (size f) (max (size this) (size args))
          | Inr (E, xs, area, g) \<Rightarrow> Suc (size_list size xs))", goal_cases)
    case 1
    show ?case by simp
  next
    case (2 E state this args g f)
    then show ?case by (auto dest!: get_method_size)
  next
    case (3 E state this args g f)
    then show ?case by (auto dest!: get_method_size)
  next
    case (4 E fn this args g)
    then show ?case using size_pos [of fn] by auto
  next
    case (5 E basics this args g f)
    then show ?case using size_pos [of basics] by (auto dest!: get_method_size)
  next
    case (6 E basics this args g f)
    then show ?case using size_pos [of basics] by (auto dest!: get_method_size)
  next
    case (7 E basics complex this args g f)
    then show ?case using size_pos [of basics] by (auto dest!: get_method_size)
  next
    case (8 E basics complex this args g f x a g1 f')
    then show ?case using size_pos [of complex] by (auto dest!: get_method_size)
  next
    case (9 E this args g v xs)
    then show ?case by (auto dest!: get_size)
  next
    case (10 E this args g c f)
    from \<open>get_method c ''sum'' = Inr f\<close> have "c \<noteq> Undefined"
      by (auto simp: get_method_def)
    with \<open>get this ''calculator'' = Inr c\<close> have "size c < size this"
      by (rule get_size)
    moreover from \<open>get_method c ''sum'' = Inr f\<close> have "size f < size c"
      by (rule get_method_size)
    ultimately show ?case using size_pos [of c] by auto
  next
    case (11 E this args g c f)
    from \<open>get_method c ''sum'' = Inr f\<close> have "c \<noteq> Undefined"
      by (auto simp: get_method_def)
    with \<open>get this ''calculator'' = Inr c\<close> have "size c < size this"
      by (rule get_size)
    moreover from \<open>get_method c ''sum'' = Inr f\<close> have "size f < size c"
      by (rule get_method_size)
    ultimately show ?case using size_pos [of c] by auto
  next
    case (12 E x xs area g g1 f)
    then show ?case using size_pos [of x] by (auto dest!: get_method_size)
  next
    case (13 E x xs area g g1 f r c g2)
    then show ?case by simp
  qed
qed

text \<open>The method call \<^verbatim>\<open>obj.k(args)\<close>.\<close>

definition invoke :: "'n engine \<Rightarrow> 'n jsval \<Rightarrow> string \<Rightarrow> 'n jsval \<Rightarrow> 'n globals
    \<Rightarrow> (error + 'n jsval) \<times> 'n globals" where
  "invoke E obj k args g =
     (case get_method obj k of
        Inl e \<Rightarrow> (Inl e, g)
      | Inr f \<Rightarrow> call E f obj args g)"

text \<open>The state in which the script starts: no global variable \<^verbatim>\<open>shape\<close> yet.\<close>

definition no_globals :: "'n globals" where
  "no_globals = \<lparr>shape = None\<rparr>"

text \<open>\<^verbatim>\<open>x.calculate()\<close> and \<^verbatim>\<open>areaCalculator(shapes).sum()\<close>, called in that state.\<close>

definition calculate :: "'n engine \<Rightarrow> 'n jsval \<Rightarrow> error + 'n jsval" where
  "calculate E x = fst (invoke E x ''calculate'' Undefined no_globals)"

definition sum_of :: "'n engine \<Rightarrow> 'n jsval list \<Rightarrow> error + 'n jsval" where
  "sum_of E shapes = fst (invoke E (areaCalculator (Arr shapes)) ''sum'' Undefined no_globals)"

text \<open>The expression \<^verbatim>\<open>a + b\<close> of two calls: the first one that throws ends it.\<close>

definition plus_of :: "'n engine \<Rightarrow> error + 'n jsval \<Rightarrow> error + 'n jsval \<Rightarrow> error + 'n jsval"
  where
  "plus_of E a b =
     (case a of
        Inl e \<Rightarrow> Inl e
      | Inr x \<Rightarrow> (case b of Inl e \<Rightarrow> Inl e | Inr y \<Rightarrow> js_add E x y))"

text \<open>An element has the capability \<^verbatim>\<open>sum()\<close> uses when its \<^verbatim>\<open>calculate\<close> is a function.\<close>

definition has_calculate :: "'n jsval \<Rightarrow> bool" where
  "has_calculate x = (case get x ''calculate'' of Inr f \<Rightarrow> is_function f | Inl e \<Rightarrow> False)"

text \<open>The shapes that the three factories build from a number.\<close>

inductive factory_shape :: "'n jsval \<Rightarrow> bool" where
  of_circle: "factory_shape (circle (Num r))"
| of_square: "factory_shape (square (Num s))"
| of_cubo: "factory_shape (cubo (Num s))"

subsection \<open>Two arithmetics\<close>

text \<open>
  The arithmetic of the specification: numbers are reals, \<^verbatim>\<open>Math.PI\<close> is \<open>\<pi>\<close>, and no
  operation rounds.
\<close>

definition exact :: "real engine" where
  "exact = \<lparr>lit0 = 0, add = (+), mul = (*), Math_pow = (^), Math_PI = pi\<rparr>"

text \<open>
  The arithmetic of the engine: IEEE 754 binary64, every operation rounded to the nearest
  value, ties to even. A finite value is the rational number it denotes. The sign of a zero
  is not kept: the source neither divides nor tells the two zeros apart. \<^verbatim>\<open>Math.pow\<close>,
  whose accuracy ECMAScript leaves to the implementation, is taken as correctly rounded;
  \<^verbatim>\<open>Math.PI\<close> is the binary64 value nearest to \<open>\<pi>\<close>.
\<close>

datatype binary64 = Finite rat | PosInf | NegInf | NaN

fun bit_length :: "nat \<Rightarrow> nat" where
  "bit_length n = (if n = 0 then 0 else Suc (bit_length (n div 2)))"

declare bit_length.simps [simp del]

text \<open>\<open>\<lfloor>log\<^sub>2 q\<rfloor>\<close> for a positive rational \<open>q\<close>.\<close>

definition floor_log2 :: "rat \<Rightarrow> int" where
  "floor_log2 q =
     (let (a, b) = quotient_of q;
          k = int (bit_length (nat a)) - int (bit_length (nat b))
      in if 2 powi k \<le> q then k else k - 1)"

text \<open>\<open>n / d\<close> rounded to the nearest integer, a tie to the even one, for \<open>0 < d\<close>.\<close>

definition round_half_even :: "int \<Rightarrow> int \<Rightarrow> int" where
  "round_half_even n d =
     (let m = n div d; r = n mod d
      in if 2 * r < d then m
         else if d < 2 * r then m + 1
         else if even m then m else m + 1)"

text \<open>
  The binary64 value of a rational: 53 significant bits, exponents from \<open>-1022\<close> (below it
  the spacing stays \<open>2 powi (-1074)\<close>), and an infinity once the rounded magnitude reaches
  \<open>2 powi 1024\<close>.
\<close>

definition round_binary64 :: "rat \<Rightarrow> binary64" where
  "round_binary64 q =
     (if q = 0 then Finite 0
      else let (a, b) = quotient_of \<bar>q\<bar>;
               s = max (floor_log2 \<bar>q\<bar>) (- 1022) - 52;
               m = (if 0 \<le> s then round_half_even a (b * 2 ^ nat s)
                    else round_half_even (a * 2 ^ nat (- s)) b);
               r = of_int m * 2 powi s
           in if 2 powi 1024 \<le> r then (if 0 < q then PosInf else NegInf)
              else Finite (sgn q * r))"

fun binary64_add :: "binary64 \<Rightarrow> binary64 \<Rightarrow> binary64" where
  "binary64_add NaN y = NaN"
| "binary64_add x NaN = NaN"
| "binary64_add PosInf NegInf = NaN"
| "binary64_add NegInf PosInf = NaN"
| "binary64_add PosInf y = PosInf"
| "binary64_add x PosInf = PosInf"
| "binary64_add NegInf y = NegInf"
| "binary64_add x NegInf = NegInf"
| "binary64_add (Finite a) (Finite b) = round_binary64 (a + b)"

fun binary64_mul :: "binary64 \<Rightarrow> binary64 \<Rightarrow> binary64" where
  "binary64_mul NaN y = NaN"
| "binary64_mul x NaN = NaN"
| "binary64_mul (Finite a) (Finite b) = round_binary64 (a * b)"
| "binary64_mul (Finite a) PosInf = (if a = 0 then NaN else if 0 < a then PosInf else NegInf)"
| "binary64_mul (Finite a) NegInf = (if a = 0 then NaN else if 0 < a then NegInf else PosInf)"
| "binary64_mul PosInf (Finite b) = (if b = 0 then NaN else if 0 < b then PosInf else NegInf)"
| "binary64_mul NegInf (Finite b) = (if b = 0 then NaN else if 0 < b then NegInf else PosInf)"
| "binary64_mul PosInf PosInf = PosInf"
| "binary64_mul NegInf NegInf = PosInf"
| "binary64_mul PosInf NegInf = NegInf"
| "binary64_mul NegInf PosInf = NegInf"

definition binary64_pow :: "binary64 \<Rightarrow> nat \<Rightarrow> binary64" where
  "binary64_pow x n =
     (if n = 0 then Finite 1
      else case x of
             NaN \<Rightarrow> NaN
           | PosInf \<Rightarrow> PosInf
           | NegInf \<Rightarrow> (if even n then PosInf else NegInf)
           | Finite a \<Rightarrow> round_binary64 (a ^ n))"

definition ieee754 :: "binary64 engine" where
  "ieee754 =
     \<lparr>lit0 = Finite 0, add = binary64_add, mul = binary64_mul, Math_pow = binary64_pow,
      Math_PI = Finite (884279719003555 / 281474976710656)\<rparr>"

section \<open>What the factories build\<close>

lemma square_value:
  "square l = Obj [(''length'', l)]
     (literal [(''type'', Str ''manageShapeInterface''),
               (''area'', ShapeInterface_area (square_proto l)),
               (''calculate'', ManageShapeInterface_calculate
                  (Square_fn (shapeInterface (square_proto l))))])"
  by (simp add: square_def Let_def Object_assign_def Object_create_def shapeInterface_def
      manageShapeInterface_def)

lemma circle_value:
  "circle r = Obj [(''radius'', r)]
     (literal [(''type'', Str ''manageShapeInterface''),
               (''area'', ShapeInterface_area (circle_proto r)),
               (''calculate'', ManageShapeInterface_calculate
                  (Circle_fn (shapeInterface (circle_proto r))))])"
  by (simp add: circle_def Let_def Object_assign_def Object_create_def shapeInterface_def
      manageShapeInterface_def)

lemma cubo_value:
  "cubo l = Obj [(''length'', l)]
     (literal [(''type'', Str ''manageShapeInterface''),
               (''area'', ShapeInterface_area (cubo_proto l)),
               (''calculate'', ManageShapeInterface_calculate
                  (Cubo_fn (shapeInterface (cubo_proto l))
                     (solidShapeInterface (cubo_proto l))))])"
  by (simp add: cubo_def Let_def Object_assign_def Object_create_def shapeInterface_def
      manageShapeInterface_def)

lemma areaCalculator_value:
  "areaCalculator s = Obj [(''shapes'', s)]
     (literal [(''type'', Str ''areaCalculator''), (''sum'', AreaCalculator_sum)])"
  by (simp add: areaCalculator_def areaCalculator_proto_def Let_def Object_assign_def
      Object_create_def)

lemma volumeCalculator_value:
  "volumeCalculator s = Obj [(''shapes'', s)]
     (literal [(''type'', Str ''volumeCalculator''), (''sum'', AreaCalculator_sum)])"
  by (simp add: volumeCalculator_def areaCalculator_value Let_def Object_assign_def
      Object_create_def)

lemma sumCalculatorOputter_value:
  "sumCalculatorOputter a = Obj [(''calculator'', a)]
     (literal [(''JSON'', Oputter_JSON), (''HAML'', Oputter_HAML),
               (''HTML'', Oputter_HTML), (''JADE'', Oputter_JADE)])"
  by (simp add: sumCalculatorOputter_def Let_def Object_assign_def Object_create_def)

section \<open>The methods of the shapes\<close>

lemma square_area:
  "invoke E (square (Num x)) ''area'' a g = (Inr (Num (Math_pow E x 2)), g)"
  by (simp add: square_value invoke_def get_method_def square_proto_def js_pow_def)

lemma square_calculate:
  "invoke E (square (Num x)) ''calculate'' a g = (Inr (Num (Math_pow E x 2)), g)"
  by (simp add: square_value invoke_def get_method_def square_proto_def js_pow_def
      shapeInterface_def)

lemma circle_area:
  "invoke E (circle (Num x)) ''area'' a g =
     (Inr (Num (mul E (Math_PI E) (Math_pow E x 2))), g)"
  by (simp add: circle_value invoke_def get_method_def circle_proto_def js_pow_def js_mul_def)

lemma circle_calculate:
  "invoke E (circle (Num x)) ''calculate'' a g =
     (Inr (Num (mul E (Math_PI E) (Math_pow E x 2))), g)"
  by (simp add: circle_value invoke_def get_method_def circle_proto_def js_pow_def js_mul_def
      shapeInterface_def)

lemma cubo_area:
  "invoke E (cubo (Num x)) ''area'' a g = (Inr (Num (Math_pow E x 2)), g)"
  by (simp add: cubo_value invoke_def get_method_def cubo_proto_def js_pow_def)

lemma cubo_calculate:
  "invoke E (cubo (Num x)) ''calculate'' a g =
     (Inr (Num (add E (Math_pow E x 2) (Math_pow E x 3))), g)"
  by (simp add: cubo_value invoke_def get_method_def cubo_proto_def js_pow_def js_add_def
      shapeInterface_def solidShapeInterface_def)

lemma complex_volume:
  "invoke E (solidShapeInterface (cubo_proto (Num x))) ''volume'' a g =
     (Inr (Num (Math_pow E x 3)), g)"
  by (simp add: invoke_def get_method_def cubo_proto_def js_pow_def solidShapeInterface_def)

lemma cubo_volume:
  "invoke E (cubo l) ''volume'' a g = (Inl TypeError, g)"
  by (simp add: cubo_value invoke_def get_method_def)

lemma factory_shape_calculate:
  "factory_shape x \<Longrightarrow> \<exists>c. \<forall>g. invoke E x ''calculate'' Undefined g = (Inr (Num c), g)"
  by (induction rule: factory_shape.induct)
     (simp_all add: square_calculate circle_calculate cubo_calculate)

section \<open>The state is never read\<close>

lemma state_free:
  "call E f this args g = (r, h) \<Longrightarrow> call E f this args g' = (r', h') \<Longrightarrow> r = r'"
  "for_of E xs area g = (q, h) \<Longrightarrow> for_of E xs area g' = (q', h') \<Longrightarrow> q = q'"
proof (induction E f this args g and E xs area g
    arbitrary: g' r h r' h' and g' q h q' h' rule: call_for_of.induct)
  case (10 E basics complex this args g)
  from "10.prems" show ?case
    by (auto split: sum.splits prod.splits dest: "10.IH"(1) "10.IH"(2) [OF _ sym])
next
  case (11 E this args g)
  from "11.prems" show ?case
    by (auto split: sum.splits prod.splits jsval.splits list.splits dest: "11.IH")
next
  case (12 E this args g)
  from "12.prems" show ?case
    by (auto split: sum.splits prod.splits dest: "12.IH")
next
  case (14 E this args g)
  from "14.prems" show ?case
    by (auto split: sum.splits prod.splits dest: "14.IH")
next
  case (25 E x xs area g)
  from "25.prems" show ?case
    by (auto simp: Let_def split: sum.splits prod.splits
        dest: "25.IH"(1) [OF refl] "25.IH"(2) [OF refl _ sym])
qed (auto split: sum.splits if_splits)

lemma call_state_free: "fst (call E f this args g) = fst (call E f this args g')"
  using state_free(1) [of E f this args g _ _ g'] by (metis prod.collapse)

lemma for_of_state_free: "fst (for_of E xs area g) = fst (for_of E xs area g')"
  using state_free(2) [of E xs area g _ _ g'] by (metis prod.collapse)

lemma invoke_state_free: "fst (invoke E obj k args g) = fst (invoke E obj k args g')"
  by (cases "get_method obj k") (simp_all add: invoke_def call_state_free [of _ _ _ _ g g'])

lemma globals_eq: "(g :: 'n globals) = h \<longleftrightarrow> shape g = shape h"
  by (cases g; cases h) simp

section \<open>The loop and the reduction\<close>

lemma reduce_numbers:
  "reduce E (map Num cs) (Num v) = Inr (Num (foldl (\<lambda>v c. add E c v) v cs))"
  by (induction cs arbitrary: v) (simp_all add: js_add_def)

lemma invoke_Inr:
  assumes "fst (invoke E x k a g) = Inr c"
  obtains f h where "get_method x k = Inr f" and "call E f x a g = (Inr c, h)"
  using assms
  by (cases "get_method x k"; cases "call E (projr (get_method x k)) x a g")
     (auto simp: invoke_def)

lemma for_of_results:
  "map (calculate E) xs = map Inr cs \<Longrightarrow> fst (for_of E xs area g) = Inr (area @ cs)"
proof (induction xs arbitrary: cs area g)
  case Nil
  then show ?case by simp
next
  case (Cons x xs)
  from Cons.prems obtain c cs' where cs: "cs = c # cs'"
    and c: "calculate E x = Inr c" and rest: "map (calculate E) xs = map Inr cs'"
    by (cases cs) auto
  from c have "fst (invoke E x ''calculate'' Undefined (g\<lparr>shape := Some x\<rparr>)) = Inr c"
    using invoke_state_free [of E x "''calculate''" Undefined no_globals "g\<lparr>shape := Some x\<rparr>"]
    by (simp add: calculate_def)
  then obtain f h where "get_method x ''calculate'' = Inr f"
    and "call E f x Undefined (g\<lparr>shape := Some x\<rparr>) = (Inr c, h)"
    by (rule invoke_Inr)
  with Cons.IH [OF rest, of "area @ [c]" h] cs show ?case by simp
qed

lemma sum_results:
  assumes "map (calculate E) xs = map (\<lambda>c. Inr (Num c)) cs"
  shows "fst (invoke E (areaCalculator (Arr xs)) ''sum'' a g) =
    Inr (Num (foldl (\<lambda>v c. add E c v) (lit0 E) cs))"
proof -
  from assms have "map (calculate E) xs = map Inr (map Num cs)"
    by simp
  then have "fst (for_of E xs [] g) = Inr (map Num cs)"
    using for_of_results [of E xs "map Num cs" "[]" g] by simp
  then obtain h where "for_of E xs [] g = (Inr (map Num cs), h)"
    by (cases "for_of E xs [] g") simp
  then show ?thesis
    by (simp add: areaCalculator_value invoke_def get_method_def reduce_numbers)
qed

lemma factory_shapes_calculate:
  "\<forall>x\<in>set xs. factory_shape x \<Longrightarrow> \<exists>cs. map (calculate E) xs = map (\<lambda>c. Inr (Num c)) cs"
proof (induction xs)
  case Nil
  show ?case by simp
next
  case (Cons x xs)
  then obtain cs where cs: "map (calculate E) xs = map (\<lambda>c. Inr (Num c)) cs"
    by auto
  from Cons.prems obtain c where "calculate E x = Inr (Num c)"
    using factory_shape_calculate [of x E] by (auto simp: calculate_def)
  with cs have "map (calculate E) (x # xs) = map (\<lambda>c. Inr (Num c)) (c # cs)"
    by simp
  then show ?case by blast
qed

lemma foldl_exact: "foldl (\<lambda>v c. add exact c v) v cs = v + sum_list cs"
  by (induction cs arbitrary: v) (simp_all add: exact_def)

section \<open>Elements without the capability\<close>

lemma get_calculate_error: "get x ''calculate'' = Inl e \<Longrightarrow> e = TypeError"
  by (induction x "''calculate''" rule: get.induct) (auto split: option.splits if_splits)

lemma lacks_calculate: "\<not> has_calculate x \<Longrightarrow> get_method x ''calculate'' = Inl TypeError"
  by (auto simp: has_calculate_def get_method_def split: sum.splits dest: get_calculate_error)

lemma get_method_has_calculate: "get_method x ''calculate'' = Inr f \<Longrightarrow> has_calculate x"
  by (auto simp: has_calculate_def get_method_def split: sum.splits if_splits)

lemma for_of_lacking:
  "x \<in> set xs \<Longrightarrow> \<not> has_calculate x \<Longrightarrow> \<exists>e. fst (for_of E xs area g) = Inl e"
proof (induction xs arbitrary: area g)
  case Nil
  then show ?case by simp
next
  case (Cons y ys)
  show ?case
  proof (cases "get_method y ''calculate''")
    case (Inl e)
    then show ?thesis by simp
  next
    case (Inr f)
    then have "has_calculate y" by (rule get_method_has_calculate)
    with Cons.prems have x: "x \<in> set ys" by auto
    obtain r h where call: "call E f y Undefined (g\<lparr>shape := Some y\<rparr>) = (r, h)"
      by (cases "call E f y Undefined (g\<lparr>shape := Some y\<rparr>)")
    show ?thesis
    proof (cases r)
      case (Inl e)
      with Inr call show ?thesis by simp
    next
      case r: (Inr c)
      from Cons.IH [OF x Cons.prems(2), of "area @ [c]" h] Inr call r show ?thesis
        by simp
    qed
  qed
qed

lemma for_of_stops:
  assumes "\<forall>x\<in>set pre. \<exists>v. calculate E x = Inr v" and "\<not> has_calculate bad"
  shows "for_of E (pre @ bad # post) area g = (Inl TypeError, g\<lparr>shape := Some bad\<rparr>)"
  using assms(1)
proof (induction pre arbitrary: area g)
  case Nil
  from assms(2) show ?case by (simp add: lacks_calculate)
next
  case (Cons x pre)
  then obtain v where "calculate E x = Inr v" by auto
  then have "fst (invoke E x ''calculate'' Undefined (g\<lparr>shape := Some x\<rparr>)) = Inr v"
    using invoke_state_free [of E x "''calculate''" Undefined no_globals "g\<lparr>shape := Some x\<rparr>"]
    by (simp add: calculate_def)
  then obtain f h where "get_method x ''calculate'' = Inr f"
    and "call E f x Undefined (g\<lparr>shape := Some x\<rparr>) = (Inr v, h)"
    by (rule invoke_Inr)
  moreover from Cons have "for_of E (pre @ bad # post) (area @ [v]) h =
      (Inl TypeError, h\<lparr>shape := Some bad\<rparr>)"
    by simp
  ultimately show ?case by (simp add: globals_eq)
qed

section \<open>The variable of the loop\<close>

lemma for_of_factory_state:
  "\<forall>x\<in>set xs. factory_shape x \<Longrightarrow>
     snd (for_of E xs area g) = (if xs = [] then g else g\<lparr>shape := Some (last xs)\<rparr>)"
proof (induction xs arbitrary: area g)
  case Nil
  show ?case by simp
next
  case (Cons x xs)
  then obtain c where c: "invoke E x ''calculate'' Undefined (g\<lparr>shape := Some x\<rparr>) =
      (Inr (Num c), g\<lparr>shape := Some x\<rparr>)"
    using factory_shape_calculate [of x E] by auto
  then obtain f where "get_method x ''calculate'' = Inr f"
    and "call E f x Undefined (g\<lparr>shape := Some x\<rparr>) = (Inr (Num c), g\<lparr>shape := Some x\<rparr>)"
    by (cases "get_method x ''calculate''") (auto simp: invoke_def)
  with Cons.IH [of "area @ [Num c]" "g\<lparr>shape := Some x\<rparr>"] Cons.prems show ?case
    by (simp add: globals_eq)
qed

lemma sum_assigns_shape:
  assumes "\<forall>x\<in>set xs. factory_shape x" and "xs \<noteq> []"
  shows "snd (invoke E (areaCalculator (Arr xs)) ''sum'' a g) = g\<lparr>shape := Some (last xs)\<rparr>"
proof -
  obtain r h where r: "for_of E xs [] g = (r, h)"
    by (cases "for_of E xs [] g")
  with for_of_factory_state [OF assms(1), of E "[]" g] assms(2)
  have "h = g\<lparr>shape := Some (last xs)\<rparr>" by simp
  with r show ?thesis
    by (cases r) (simp_all add: areaCalculator_value invoke_def get_method_def)
qed

section \<open>Totals of concatenated sequences\<close>

lemmas binary64_eval =
  round_binary64_def floor_log2_def round_half_even_def binary64_pow_def Let_def
  bit_length.simps

lemma sum_of_eval:
  "sum_of E xs = (case for_of E xs [] no_globals of
      (Inl e, h) \<Rightarrow> Inl e | (Inr area, h) \<Rightarrow> reduce E area (Num (lit0 E)))"
  by (simp add: sum_of_def areaCalculator_value invoke_def get_method_def
      split: prod.splits sum.splits)

lemma sum_of_numbers:
  "map (calculate E) xs = map (\<lambda>c. Inr (Num c)) cs \<Longrightarrow>
     sum_of E xs = Inr (Num (foldl (\<lambda>v c. add E c v) (lit0 E) cs))"
  by (simp add: sum_of_def sum_results)

lemma for_of_square:
  "for_of E (square (Num x) # xs) area g =
     for_of E xs (area @ [Num (Math_pow E x 2)]) (g\<lparr>shape := Some (square (Num x))\<rparr>)"
  using square_calculate [of E x Undefined "g\<lparr>shape := Some (square (Num x))\<rparr>"]
  by (cases "get_method (square (Num x)) ''calculate''") (auto simp: invoke_def)

lemma sum_of_binary64_together:
  "sum_of ieee754
     [square (Num (Finite 100000000)), square (Num (Finite 1)), square (Num (Finite 1))] =
   Inr (Num (Finite 10000000000000000))"
  by (simp add: sum_of_eval for_of_square js_add_def ieee754_def binary64_eval
      del: for_of.simps(2))

lemma sum_of_binary64_apart:
  "plus_of ieee754 (sum_of ieee754 [square (Num (Finite 100000000))])
     (sum_of ieee754 [square (Num (Finite 1)), square (Num (Finite 1))]) =
   Inr (Num (Finite 10000000000000002))"
  by (simp add: sum_of_eval for_of_square plus_of_def js_add_def ieee754_def binary64_eval
      del: for_of.simps(2))

section \<open>The rounding of binary64\<close>

text \<open>
  What the three auxiliary functions compute: \<open>bit_length\<close> the number of binary digits,
  \<open>floor_log2\<close> the exponent of a positive rational, \<open>round_half_even\<close> a nearest integer;
  a finite \<open>round_binary64 q\<close> is within half a unit in the last place of \<open>q\<close>.
\<close>

lemma bit_length_bounds:
  "0 < n \<Longrightarrow> 2 ^ (bit_length n - 1) \<le> n \<and> n < 2 ^ bit_length n"
proof (induction n rule: bit_length.induct)
  case (1 n)
  show ?case
  proof (cases "n div 2 = 0")
    case True
    with "1.prems" have "n = 1" by (simp add: div_eq_0_iff) 
    then show ?thesis by (simp add: bit_length.simps)
  next
    case False
    then have pos: "0 < n div 2" by simp
    with "1.IH" "1.prems" have IH: "2 ^ (bit_length (n div 2) - 1) \<le> n div 2"
      "n div 2 < 2 ^ bit_length (n div 2)" by auto
    from pos have bl: "0 < bit_length (n div 2)"
      by (simp add: bit_length.simps [of "n div 2"])
    have eq: "bit_length n = Suc (bit_length (n div 2))"
      using "1.prems" by (simp add: bit_length.simps [of n])
    from bl have "(2::nat) ^ bit_length (n div 2) = 2 * 2 ^ (bit_length (n div 2) - 1)"
      by (cases "bit_length (n div 2)") simp_all
    with IH show ?thesis unfolding eq by (simp) linarith
  qed
qed

lemma round_half_even_nearest:
  assumes "0 < d"
  shows "\<bar>rat_of_int (round_half_even n d) - of_int n / of_int d\<bar> \<le> 1 / 2"
proof -
  define m r where "m = n div d" and "r = n mod d"
  have n: "rat_of_int n = of_int m * of_int d + of_int r"
    unfolding m_def r_def by (metis of_int_add of_int_mult div_mult_mod_eq)
  have r: "0 \<le> rat_of_int r" "rat_of_int r < of_int d"
    using assms unfolding r_def by simp_all
  from assms have d: "0 < rat_of_int d" by simp
  have frac: "rat_of_int n / of_int d = of_int m + of_int r / of_int d"
    using d by (simp add: n field_simps)
  have lt: "2 * r < d \<longleftrightarrow> 2 * rat_of_int r < of_int d"
    and gt: "d < 2 * r \<longleftrightarrow> rat_of_int d < 2 * of_int r"
    by (metis of_int_less_iff of_int_mult of_int_numeral)+
  have *: "round_half_even n d =
      (if 2 * r < d then m else if d < 2 * r then m + 1 else if even m then m else m + 1)"
    by (simp add: round_half_even_def Let_def m_def r_def)
  show ?thesis
    unfolding * frac lt gt using r d
    by (simp add: field_simps abs_if)
qed

lemma floor_log2_bounds:
  assumes "0 < q"
  shows "2 powi floor_log2 q \<le> q \<and> q < 2 powi (floor_log2 q + 1)"
proof -
  obtain a b where ab: "quotient_of q = (a, b)" by (cases "quotient_of q")
  then have b: "0 < b" and q: "q = of_int a / of_int b"
    by (simp_all add: quotient_of_denom_pos quotient_of_div)
  with assms have a: "0 < a"
    by (simp add: zero_less_divide_iff)
  define la lb where "la = bit_length (nat a)" and "lb = bit_length (nat b)"
  from a b have ba: "2 ^ (la - 1) \<le> nat a" "nat a < 2 ^ la"
    and bb: "2 ^ (lb - 1) \<le> nat b" "nat b < 2 ^ lb"
    unfolding la_def lb_def using bit_length_bounds [of "nat a"] bit_length_bounds [of "nat b"]
    by simp_all
  from a ba b bb have lpos: "0 < la" "0 < lb"
    by (auto intro: Nat.gr0I)
  have ra: "(2::rat) ^ (la - 1) \<le> of_int a" "rat_of_int a < 2 ^ la"
    using ba a
    by (metis of_nat_le_iff of_nat_numeral of_nat_power of_int_of_nat_eq int_nat_eq
         less_imp_le of_int_le_iff,
        metis of_nat_less_iff of_nat_numeral of_nat_power of_int_of_nat_eq int_nat_eq
         less_imp_le)
  have rb: "(2::rat) ^ (lb - 1) \<le> of_int b" "rat_of_int b < 2 ^ lb"
    using bb b
    by (metis of_nat_le_iff of_nat_numeral of_nat_power of_int_of_nat_eq int_nat_eq
         less_imp_le of_int_le_iff,
        metis of_nat_less_iff of_nat_numeral of_nat_power of_int_of_nat_eq int_nat_eq
         less_imp_le)
  define k where "k = int la - int lb"
  have fl: "floor_log2 q = (if 2 powi k \<le> q then k else k - 1)"
    by (simp add: floor_log2_def ab la_def lb_def k_def Let_def)
  have two_la: "(2::rat) ^ la = 2 * 2 ^ (la - 1)" and two_lb: "(2::rat) ^ lb = 2 * 2 ^ (lb - 1)"
    using lpos by (cases la, simp_all) (cases lb, simp_all)
  from b have rb_pos: "0 < rat_of_int b" by simp
  have "rat_of_int a * 2 ^ lb < 2 ^ la * 2 ^ lb"
    using ra(2) by simp
  also have "\<dots> \<le> 2 ^ la * (2 * rat_of_int b)"
    using rb(1) two_lb by simp
  finally have "q < 2 ^ la * 2 / 2 ^ lb"
    using rb_pos by (simp add: q field_simps)
  then have upper: "q < 2 powi (k + 1)"
    by (simp add: k_def power_int_add power_int_diff)
  have "2 ^ la * rat_of_int b \<le> 2 * rat_of_int a * rat_of_int b"
    using ra(1) two_la rb_pos by simp
  also have "\<dots> \<le> 2 * rat_of_int a * 2 ^ lb"
    using rb(2) a by simp
  finally have "2 ^ la / (2 * 2 ^ lb) \<le> q"
    using rb_pos by (simp add: q field_simps)
  then have lower: "2 powi (k - 1) \<le> q"
    by (simp add: k_def power_int_diff)
  show ?thesis
    using upper lower by (auto simp: fl)
qed


lemma round_binary64_nearest:
  assumes "round_binary64 q = Finite r"
  shows "\<bar>r - q\<bar> \<le> 2 powi (max (floor_log2 \<bar>q\<bar>) (- 1022) - 53)"
proof (cases "q = 0")
  case True
  with assms show ?thesis by (simp add: round_binary64_def)
next
  case False
  obtain a b where ab: "quotient_of \<bar>q\<bar> = (a, b)" by (cases "quotient_of \<bar>q\<bar>")
  then have b: "0 < b" and q: "\<bar>q\<bar> = of_int a / of_int b"
    by (simp_all add: quotient_of_denom_pos quotient_of_div)
  define s where "s = max (floor_log2 \<bar>q\<bar>) (- 1022) - 52"
  define m where "m = (if 0 \<le> s then round_half_even a (b * 2 ^ nat s)
                    else round_half_even (a * 2 ^ nat (- s)) b)"
  from assms False have r: "r = sgn q * (of_int m * 2 powi s)"
    by (simp add: round_binary64_def ab s_def m_def Let_def split: if_splits)
  have near: "\<bar>rat_of_int m - \<bar>q\<bar> / 2 powi s\<bar> \<le> 1 / 2"
  proof (cases "0 \<le> s")
    case True
    then have "2 powi s = (2::rat) ^ nat s"
      by (simp add: power_int_def)
    then have "\<bar>q\<bar> / 2 powi s = rat_of_int a / rat_of_int (b * 2 ^ nat s)"
      by (simp add: q)
    moreover from True have "m = round_half_even a (b * 2 ^ nat s)"
      by (simp add: m_def)
    moreover from b have "0 < b * 2 ^ nat s"
      by simp
    ultimately show ?thesis
      using round_half_even_nearest [of "b * 2 ^ nat s" a] by simp
  next
    case neg: False
    then have "2 powi s = inverse ((2::rat) ^ nat (- s))"
      by (simp add: power_int_def power_one_over inverse_eq_divide)
    then have "\<bar>q\<bar> / 2 powi s = rat_of_int (a * 2 ^ nat (- s)) / rat_of_int b"
      by (simp add: q divide_inverse)
    moreover from neg have "m = round_half_even (a * 2 ^ nat (- s)) b"
      by (simp add: m_def)
    ultimately show ?thesis
      using round_half_even_nearest [OF b, of "a * 2 ^ nat (- s)"] by simp
  qed
  have pos: "(0::rat) < 2 powi s" by simp
  have "\<bar>r - q\<bar> = \<bar>of_int m * 2 powi s - \<bar>q\<bar>\<bar>"
    using False unfolding r by (cases "0 < q") (simp_all add: sgn_if abs_if)
  also have "of_int m * 2 powi s - \<bar>q\<bar> = (rat_of_int m - \<bar>q\<bar> / 2 powi s) * 2 powi s"
    by (simp add: left_diff_distrib)
  also have "\<bar>\<dots>\<bar> = \<bar>rat_of_int m - \<bar>q\<bar> / 2 powi s\<bar> * 2 powi s"
    by (simp add: abs_mult)
  also have "\<dots> \<le> 1 / 2 * 2 powi s"
    using near pos by (rule mult_right_mono [OF _ less_imp_le])
  also have "\<dots> = 2 powi (s - 1)"
    by (simp add: power_int_diff)
  finally show ?thesis by (simp add: s_def)
qed

section \<open>The claims\<close>

text \<open>
  C1. For every sequence of shapes that the circle, square and cubo factories build,
  \<^verbatim>\<open>sum()\<close> returns the sum of the numbers that the \<^verbatim>\<open>calculate()\<close> of each element
  returns: the total that starts at \<^verbatim>\<open>0\<close> and takes the contributions in order, in the
  arithmetic of the engine, which over the reals is their sum. For
  \<^verbatim>\<open>[circle(2), square(5), square(6)]\<close> it is \<open>4\<pi> + 25 + 36\<close>.
\<close>

theorem sum_is_the_sum_of_the_contributions:
  "((\<forall>x\<in>set shapes. factory_shape x) \<longrightarrow>
      (\<exists>cs. map (calculate E) shapes = map (\<lambda>c. Inr (Num c)) cs \<and>
            fst (invoke E (areaCalculator (Arr shapes)) ''sum'' Undefined g) =
              Inr (Num (foldl (\<lambda>v c. add E c v) (lit0 E) cs)))) \<and>
   foldl (\<lambda>v c. add exact c v) (lit0 exact) rs = sum_list rs \<and>
   fst (invoke exact (areaCalculator (Arr [circle (Num 2), square (Num 5), square (Num 6)]))
          ''sum'' Undefined h) = Inr (Num (4 * pi + 25 + 36))"
proof (intro conjI impI)
  assume "\<forall>x\<in>set shapes. factory_shape x"
  then obtain cs where "map (calculate E) shapes = map (\<lambda>c. Inr (Num c)) cs"
    using factory_shapes_calculate by blast
  with sum_results [OF this]
  show "\<exists>cs. map (calculate E) shapes = map (\<lambda>c. Inr (Num c)) cs \<and>
      fst (invoke E (areaCalculator (Arr shapes)) ''sum'' Undefined g) =
        Inr (Num (foldl (\<lambda>v c. add E c v) (lit0 E) cs))"
    by blast
next
  show "foldl (\<lambda>v c. add exact c v) (lit0 exact) rs = sum_list rs"
    by (simp add: foldl_exact) (simp add: exact_def)
next
  have "map (calculate exact) [circle (Num 2), square (Num 5), square (Num 6)] =
      map (\<lambda>c. Inr (Num c)) [pi * 2\<^sup>2, 5\<^sup>2, 6\<^sup>2]"
    by (simp add: calculate_def circle_calculate square_calculate) (simp add: exact_def)
  from sum_results [OF this]
  show "fst (invoke exact
        (areaCalculator (Arr [circle (Num 2), square (Num 5), square (Num 6)]))
        ''sum'' Undefined h) = Inr (Num (4 * pi + 25 + 36))"
    by (simp add: foldl_exact) (simp add: exact_def)
qed

theorem sum_is_the_sum_of_the_contributions_witness:
  "factory_shape (circle (Num (2 :: real))) \<and> factory_shape (square (Num (5 :: real))) \<and>
   factory_shape (square (Num (6 :: real))) \<and>
   (\<exists>cs. map (calculate exact) [circle (Num 2), square (Num 5), square (Num 6)] =
           map (\<lambda>c. Inr (Num c)) cs \<and>
         fst (invoke exact
           (areaCalculator (Arr [circle (Num 2), square (Num 5), square (Num 6)]))
           ''sum'' Undefined no_globals) =
           Inr (Num (foldl (\<lambda>v c. add exact c v) (lit0 exact) cs)))"
proof -
  have shapes: "factory_shape (circle (Num (2 :: real)))"
    "factory_shape (square (Num (5 :: real)))" "factory_shape (square (Num (6 :: real)))"
    by (rule factory_shape.intros)+
  then have "\<forall>x\<in>set [circle (Num 2), square (Num 5), square (Num (6 :: real))].
      factory_shape x"
    by simp
  with sum_is_the_sum_of_the_contributions
    [of "[circle (Num 2), square (Num 5), square (Num 6)]" exact no_globals]
  have "\<exists>cs. map (calculate exact) [circle (Num 2), square (Num 5), square (Num 6)] =
      map (\<lambda>c. Inr (Num c)) cs \<and>
    fst (invoke exact (areaCalculator (Arr [circle (Num 2), square (Num 5), square (Num 6)]))
      ''sum'' Undefined no_globals) =
      Inr (Num (foldl (\<lambda>v c. add exact c v) (lit0 exact) cs))"
    by blast
  with shapes show ?thesis by blast
qed

text \<open>
  C2. Over the reals \<^verbatim>\<open>circle(r).area()\<close> is \<open>\<pi>r\<^sup>2\<close>, \<^verbatim>\<open>square(s).area()\<close> and
  \<^verbatim>\<open>cubo(s).area()\<close> are \<open>s\<^sup>2\<close>, and the volume that \<^verbatim>\<open>cubo\<close> computes, the \<^verbatim>\<open>volume()\<close> of
  its \<^verbatim>\<open>solidShapeInterface\<close>, is \<open>s\<^sup>3\<close>. The object that \<^verbatim>\<open>cubo(s)\<close> returns has no
  \<^verbatim>\<open>volume\<close>: its prototype is \<^verbatim>\<open>Object.assign({}, basics, abstraccion)\<close>, without
  \<^verbatim>\<open>complex\<close>, so that \<^verbatim>\<open>cubo(s).volume()\<close> throws a \<^verbatim>\<open>TypeError\<close> in place of
  returning \<open>s\<^sup>3\<close>.
\<close>

theorem cubo_volume_is_not_a_method:
  "invoke exact (circle (Num r)) ''area'' Undefined g = (Inr (Num (pi * r\<^sup>2)), g) \<and>
   invoke exact (square (Num s)) ''area'' Undefined g = (Inr (Num (s\<^sup>2)), g) \<and>
   invoke exact (cubo (Num s)) ''area'' Undefined g = (Inr (Num (s\<^sup>2)), g) \<and>
   invoke exact (solidShapeInterface (cubo_proto (Num s))) ''volume'' Undefined g =
     (Inr (Num (s ^ 3)), g) \<and>
   get (cubo (Num s)) ''volume'' = Inr Undefined \<and>
   invoke exact (cubo (Num s)) ''volume'' Undefined g = (Inl TypeError, g) \<and>
   invoke exact (cubo (Num 4)) ''volume'' Undefined no_globals = (Inl TypeError, no_globals)"
  by (simp add: circle_area square_area cubo_area complex_volume cubo_volume)
     (simp add: exact_def cubo_value)

text \<open>
  C3. \<^verbatim>\<open>areaCalculator([]).sum()\<close> returns the literal \<^verbatim>\<open>0\<close> that the reduction starts
  from, and changes nothing.
\<close>

theorem sum_of_no_shapes:
  "invoke E (areaCalculator (Arr [])) ''sum'' Undefined g = (Inr (Num (lit0 E)), g) \<and>
   invoke exact (areaCalculator (Arr [])) ''sum'' Undefined h = (Inr (Num 0), h) \<and>
   invoke ieee754 (areaCalculator (Arr [])) ''sum'' Undefined k = (Inr (Num (Finite 0)), k)"
  by (simp add: areaCalculator_value invoke_def get_method_def) (simp add: exact_def ieee754_def)

text \<open>
  C4. When an element of the sequence has no \<^verbatim>\<open>calculate\<close> function, \<^verbatim>\<open>sum()\<close> returns
  no total. When the \<^verbatim>\<open>calculate()\<close> of every element before it returns, \<^verbatim>\<open>sum()\<close>
  throws a \<^verbatim>\<open>TypeError\<close> at that element, whatever follows it: the loop variable
  \<^verbatim>\<open>shape\<close> is left at the element, which is not skipped.
\<close>

theorem sum_fails_on_a_missing_calculate:
  "(\<not> has_calculate bad \<and> (\<forall>x\<in>set pre. \<exists>v. calculate E x = Inr v) \<longrightarrow>
      invoke E (areaCalculator (Arr (pre @ bad # post))) ''sum'' Undefined g =
        (Inl TypeError, g\<lparr>shape := Some bad\<rparr>)) \<and>
   (x \<in> set xs \<and> \<not> has_calculate x \<longrightarrow>
      (\<exists>e. fst (invoke E (areaCalculator (Arr xs)) ''sum'' Undefined g) = Inl e))"
proof (intro conjI impI)
  assume "\<not> has_calculate bad \<and> (\<forall>x\<in>set pre. \<exists>v. calculate E x = Inr v)"
  then have "for_of E (pre @ bad # post) [] g = (Inl TypeError, g\<lparr>shape := Some bad\<rparr>)"
    by (simp add: for_of_stops)
  then show "invoke E (areaCalculator (Arr (pre @ bad # post))) ''sum'' Undefined g =
      (Inl TypeError, g\<lparr>shape := Some bad\<rparr>)"
    by (simp add: areaCalculator_value invoke_def get_method_def)
next
  assume "x \<in> set xs \<and> \<not> has_calculate x"
  then obtain e where "fst (for_of E xs [] g) = Inl e"
    using for_of_lacking by blast
  then obtain h where "for_of E xs [] g = (Inl e, h)"
    by (cases "for_of E xs [] g") simp
  then show "\<exists>e. fst (invoke E (areaCalculator (Arr xs)) ''sum'' Undefined g) = Inl e"
    by (simp add: areaCalculator_value invoke_def get_method_def)
qed

theorem sum_fails_on_a_missing_calculate_witness:
  "\<not> has_calculate (Num (7 :: real)) \<and>
   calculate exact (square (Num 5)) = Inr (Num 25) \<and>
   invoke exact (areaCalculator (Arr ([square (Num 5)] @ Num 7 # [circle (Num 2)])))
     ''sum'' Undefined no_globals = (Inl TypeError, no_globals\<lparr>shape := Some (Num 7)\<rparr>) \<and>
   Num (7 :: real) \<in> set [square (Num 5), Num 7, circle (Num 2)] \<and>
   (\<exists>e. fst (invoke exact (areaCalculator (Arr [square (Num 5), Num 7, circle (Num 2)]))
      ''sum'' Undefined no_globals) = Inl e)"
proof -
  have bad: "\<not> has_calculate (Num (7 :: real))"
    by (simp add: has_calculate_def)
  have pre: "calculate exact (square (Num 5)) = Inr (Num 25)"
    by (simp add: calculate_def square_calculate exact_def)
  then have "\<forall>x\<in>set [square (Num (5 :: real))]. \<exists>v. calculate exact x = Inr v"
    by simp
  moreover have "Num (7 :: real) \<in> set [square (Num 5), Num 7, circle (Num 2)]"
    by simp
  ultimately show ?thesis
    using bad pre sum_fails_on_a_missing_calculate
      [of "Num 7" "[square (Num 5)]" exact "[circle (Num 2)]" no_globals "Num 7"
        "[square (Num 5), Num 7, circle (Num 2)]"]
    by blast
qed

text \<open>
  C5. The \<^verbatim>\<open>calculate()\<close> of a cube adds its area and its volume, \<open>s\<^sup>2 + s\<^sup>3\<close> over the
  reals; the \<^verbatim>\<open>calculate()\<close> of a circle and of a square returns what their \<^verbatim>\<open>area()\<close>
  returns.
\<close>

theorem calculate_of_each_shape:
  "invoke E (cubo (Num s)) ''calculate'' Undefined g =
     (Inr (Num (add E (Math_pow E s 2) (Math_pow E s 3))), g) \<and>
   invoke exact (cubo (Num r)) ''calculate'' Undefined h = (Inr (Num (r\<^sup>2 + r ^ 3)), h) \<and>
   invoke E (circle (Num s)) ''calculate'' Undefined g =
     invoke E (circle (Num s)) ''area'' Undefined g \<and>
   invoke E (circle (Num s)) ''area'' Undefined g =
     (Inr (Num (mul E (Math_PI E) (Math_pow E s 2))), g) \<and>
   invoke E (square (Num s)) ''calculate'' Undefined g =
     invoke E (square (Num s)) ''area'' Undefined g \<and>
   invoke E (square (Num s)) ''area'' Undefined g = (Inr (Num (Math_pow E s 2)), g)"
  by (simp add: cubo_calculate circle_calculate circle_area square_calculate square_area)
     (simp add: exact_def)



text \<open>
  C9. \<^verbatim>\<open>volumeCalculator\<close> copies \<^verbatim>\<open>sum\<close> from the prototype of an \<^verbatim>\<open>areaCalculator\<close>, so
  that on every value \<^verbatim>\<open>s\<close> the \<^verbatim>\<open>sum()\<close> of \<^verbatim>\<open>volumeCalculator(s)\<close> does what the
  \<^verbatim>\<open>sum()\<close> of \<^verbatim>\<open>areaCalculator(s)\<close> does: the same result and the same state.
\<close>

theorem volumeCalculator_sum:
  "get (volumeCalculator s) ''sum'' = get (areaCalculator s) ''sum'' \<and>
   invoke E (volumeCalculator s) ''sum'' args g = invoke E (areaCalculator s) ''sum'' args g"
  by (simp add: areaCalculator_value volumeCalculator_value invoke_def get_method_def)

text \<open>
  C10, as amended. For shapes of the factories, the \<^verbatim>\<open>sum()\<close> of \<^verbatim>\<open>xs ++ ys\<close> is the
  \<^verbatim>\<open>sum()\<close> of \<^verbatim>\<open>xs\<close> with the contributions of \<^verbatim>\<open>ys\<close> added to it one after the other.
  Over the reals that is the \<^verbatim>\<open>sum()\<close> of \<^verbatim>\<open>xs\<close> plus the \<^verbatim>\<open>sum()\<close> of \<^verbatim>\<open>ys\<close>.
\<close>

theorem sum_of_append:
  "((\<forall>x\<in>set xs. factory_shape x) \<and> (\<forall>y\<in>set ys. factory_shape y) \<longrightarrow>
      (\<exists>a cs. sum_of E xs = Inr (Num a) \<and>
              map (calculate E) ys = map (\<lambda>c. Inr (Num c)) cs \<and>
              sum_of E (xs @ ys) = Inr (Num (foldl (\<lambda>v c. add E c v) a cs)))) \<and>
   ((\<forall>x\<in>set rs. factory_shape x) \<and> (\<forall>y\<in>set ss. factory_shape y) \<longrightarrow>
      sum_of exact (rs @ ss) = plus_of exact (sum_of exact rs) (sum_of exact ss))"
proof (intro conjI impI)
  assume "(\<forall>x\<in>set xs. factory_shape x) \<and> (\<forall>y\<in>set ys. factory_shape y)"
  then obtain bs cs where bs: "map (calculate E) xs = map (\<lambda>c. Inr (Num c)) bs"
    and cs: "map (calculate E) ys = map (\<lambda>c. Inr (Num c)) cs"
    using factory_shapes_calculate [of xs E] factory_shapes_calculate [of ys E] by blast
  then have "map (calculate E) (xs @ ys) = map (\<lambda>c. Inr (Num c)) (bs @ cs)"
    by simp
  then have "sum_of E (xs @ ys) =
      Inr (Num (foldl (\<lambda>v c. add E c v) (foldl (\<lambda>v c. add E c v) (lit0 E) bs) cs))"
    using sum_of_numbers [of E "xs @ ys" "bs @ cs"] by simp
  with sum_of_numbers [OF bs] cs
  show "\<exists>a cs. sum_of E xs = Inr (Num a) \<and>
      map (calculate E) ys = map (\<lambda>c. Inr (Num c)) cs \<and>
      sum_of E (xs @ ys) = Inr (Num (foldl (\<lambda>v c. add E c v) a cs))"
    by blast
next
  assume "(\<forall>x\<in>set rs. factory_shape x) \<and> (\<forall>y\<in>set ss. factory_shape y)"
  then obtain bs cs where bs: "map (calculate exact) rs = map (\<lambda>c. Inr (Num c)) bs"
    and cs: "map (calculate exact) ss = map (\<lambda>c. Inr (Num c)) cs"
    using factory_shapes_calculate [of rs exact] factory_shapes_calculate [of ss exact]
    by blast
  then have "map (calculate exact) (rs @ ss) = map (\<lambda>c. Inr (Num c)) (bs @ cs)"
    by simp
  from sum_of_numbers [OF this] sum_of_numbers [OF bs] sum_of_numbers [OF cs]
  show "sum_of exact (rs @ ss) = plus_of exact (sum_of exact rs) (sum_of exact ss)"
    by (simp add: plus_of_def js_add_def foldl_exact) (simp add: exact_def)
qed

theorem sum_of_append_witness:
  "factory_shape (square (Num (3 :: real))) \<and> factory_shape (cubo (Num (2 :: real))) \<and>
   (\<exists>a cs. sum_of exact [square (Num 3)] = Inr (Num a) \<and>
           map (calculate exact) [cubo (Num 2)] = map (\<lambda>c. Inr (Num c)) cs \<and>
           sum_of exact ([square (Num 3)] @ [cubo (Num 2)]) =
             Inr (Num (foldl (\<lambda>v c. add exact c v) a cs))) \<and>
   sum_of exact ([square (Num 3)] @ [cubo (Num 2)]) =
     plus_of exact (sum_of exact [square (Num 3)]) (sum_of exact [cubo (Num 2)])"
proof -
  have shapes: "factory_shape (square (Num (3 :: real)))"
    "factory_shape (cubo (Num (2 :: real)))"
    by (rule factory_shape.intros)+
  then have "(\<forall>x\<in>set [square (Num (3 :: real))]. factory_shape x) \<and>
      (\<forall>y\<in>set [cubo (Num (2 :: real))]. factory_shape y)"
    by simp
  with sum_of_append [of "[square (Num 3)]" "[cubo (Num 2)]" exact
      "[square (Num 3)]" "[cubo (Num 2)]"] shapes
  show ?thesis by blast
qed

text \<open>
  C10, as it is stated, fails in the arithmetic of the engine, where every addition
  rounds: after \<^verbatim>\<open>square(100000000)\<close> the total \<open>10000000000000000\<close> absorbs the \<open>1\<close> of
  each of two \<^verbatim>\<open>square(1)\<close>, while their own total \<open>2\<close> does not vanish when it is added.
\<close>

theorem sum_of_append_binary64_counterexample:
  "sum_of ieee754
     ([square (Num (Finite 100000000))] @ [square (Num (Finite 1)), square (Num (Finite 1))]) \<noteq>
   plus_of ieee754 (sum_of ieee754 [square (Num (Finite 100000000))])
     (sum_of ieee754 [square (Num (Finite 1)), square (Num (Finite 1))])"
  using sum_of_binary64_together by (simp add: sum_of_binary64_apart)

section \<open>What else the code does\<close>

text \<open>
  The loop of \<^verbatim>\<open>sum()\<close> assigns every element to the global variable \<^verbatim>\<open>shape\<close>: after a
  \<^verbatim>\<open>sum()\<close> over shapes of the factories, the variable holds the last of them.
\<close>

theorem sum_leaves_the_last_shape_in_a_global:
  "(\<forall>x\<in>set xs. factory_shape x) \<and> xs \<noteq> [] \<longrightarrow>
     snd (invoke E (areaCalculator (Arr xs)) ''sum'' Undefined g) =
       g\<lparr>shape := Some (last xs)\<rparr>"
  by (simp add: sum_assigns_shape)

theorem sum_leaves_the_last_shape_in_a_global_witness:
  "factory_shape (circle (Num (2 :: real))) \<and> factory_shape (square (Num (5 :: real))) \<and>
   [circle (Num (2 :: real)), square (Num 5)] \<noteq> [] \<and>
   snd (invoke exact (areaCalculator (Arr [circle (Num 2), square (Num 5)])) ''sum'' Undefined
     no_globals) = no_globals\<lparr>shape := Some (square (Num 5))\<rparr>"
proof -
  have shapes: "factory_shape (circle (Num (2 :: real)))"
    "factory_shape (square (Num (5 :: real)))"
    by (rule factory_shape.intros)+
  then have "(\<forall>x\<in>set [circle (Num (2 :: real)), square (Num 5)]. factory_shape x) \<and>
      [circle (Num (2 :: real)), square (Num 5)] \<noteq> []"
    by simp
  with sum_leaves_the_last_shape_in_a_global
    [of "[circle (Num 2), square (Num 5)]" exact no_globals] shapes
  show ?thesis by simp
qed

text \<open>
  The outputter: \<^verbatim>\<open>JSON()\<close> returns \<^verbatim>\<open>JSON.stringify\<close> of the number that the \<^verbatim>\<open>sum()\<close>
  of its calculator returns and nothing else, \<^verbatim>\<open>HTML()\<close> returns its template around the
  text of that number, and \<^verbatim>\<open>HAML()\<close> and \<^verbatim>\<open>JADE()\<close> return their fixed texts without a
  call of the calculator.
\<close>

theorem outputter_texts:
  "(invoke E calculator ''sum'' Undefined g = (Inr (Num x), h) \<longrightarrow>
      invoke E (sumCalculatorOputter calculator) ''JSON'' Undefined g =
        (Inr (StrOf [JSON_stringify x]), h) \<and>
      invoke E (sumCalculatorOputter calculator) ''HTML'' Undefined g =
        (HTML_template (Num x), h)) \<and>
   invoke E (sumCalculatorOputter calculator) ''HAML'' Undefined g =
     (Inr (Str ''HAML format output''), g) \<and>
   invoke E (sumCalculatorOputter calculator) ''JADE'' Undefined g =
     (Inr (Str ''JADE format output''), g)"
proof (intro conjI impI)
  assume sum: "invoke E calculator ''sum'' Undefined g = (Inr (Num x), h)"
  then obtain f where "get_method calculator ''sum'' = Inr f"
    and "call E f calculator Undefined g = (Inr (Num x), h)"
    by (cases "get_method calculator ''sum''") (auto simp: invoke_def)
  then show "invoke E (sumCalculatorOputter calculator) ''JSON'' Undefined g =
      (Inr (StrOf [JSON_stringify x]), h)"
    and "invoke E (sumCalculatorOputter calculator) ''HTML'' Undefined g =
      (HTML_template (Num x), h)"
    by (simp_all add: sumCalculatorOputter_value invoke_def get_method_def
        js_JSON_stringify_def)
qed (simp_all add: sumCalculatorOputter_value invoke_def get_method_def)

theorem outputter_texts_witness:
  "invoke exact (areaCalculator (Arr [square (Num 5), square (Num 6)])) ''sum'' Undefined
     no_globals = (Inr (Num 61), no_globals\<lparr>shape := Some (square (Num 6))\<rparr>) \<and>
   invoke exact (sumCalculatorOputter (areaCalculator (Arr [square (Num 5), square (Num 6)])))
     ''JSON'' Undefined no_globals =
     (Inr (StrOf [JSON_stringify 61]), no_globals\<lparr>shape := Some (square (Num 6))\<rparr>)"
proof -
  have "invoke exact (areaCalculator (Arr [square (Num 5), square (Num 6)])) ''sum'' Undefined
      no_globals = (Inr (Num 61), no_globals\<lparr>shape := Some (square (Num 6))\<rparr>)"
    by (simp add: areaCalculator_value invoke_def get_method_def for_of_square js_add_def
        exact_def del: for_of.simps(2))
  with outputter_texts [of exact "areaCalculator (Arr [square (Num 5), square (Num 6)])"
      no_globals 61 "no_globals\<lparr>shape := Some (square (Num 6))\<rparr>"]
  show ?thesis by simp
qed

end
